theory Spec2Isabelle
  imports Main "HOL-Library.Word" "HOL-Library.Sublist"
begin

section \<open>Data model\<close>

text \<open>
  Go's fixed-width integers are words: \<open>uint64\<close> is compared unsigned, \<open>int32\<close> is read
  in two's complement (\<open><s\<close>, \<open><=s\<close>) and \<open>version + 1\<close> wraps around as in Go.
  A \<open>[]byte\<close> is a list of 8-bit words, a Go \<open>string\<close> a list of characters.
\<close>

type_synonym uint64 = "64 word"
type_synonym int32 = "32 word"
type_synonym int64 = "64 word"
type_synonym bytes = "8 word list"

text \<open>
  \<open>po.PipelineInfo\<close>, \<open>po.MetadataVersion\<close>, \<open>vo.PipelineInfoParams\<close> and \<open>bo.SyncEvent\<close> are
  declared outside the files at hand; the records hold the fields the code reads and writes.
\<close>

record PipelineInfo =
  Id :: uint64
  Name :: string
  SourceId :: uint64
  EndpointId :: uint64
  EndpointType :: int32
  Status :: int32
  DataVersion :: int32

record MetadataVersion =
  mv_Id :: uint64
  mv_Version :: int32

record PipelineInfoParams =
  params_Name :: string
  params_SourceId :: uint64
  params_EndpointId :: uint64
  params_EndpointType :: int32
  params_Enable :: bool



datatype error =
  NotFound | VersionConflict | CoordinatorUnavailable | SerializationError | ErrValueTooLarge
| StorageIOError

datatype kind = SourceKind | EndpointKind | PipelineKind



text \<open>
  One constructor per logging call of the source, carrying the arguments of the call
  (the format strings themselves are not modelled).
\<close>

datatype log_entry =
  Infof_CascadeUpdate string int32
| Infof_refreshAll_deletions nat
| Infof_refreshAll_ignore string int32 int32
| Infof_refreshAll_refresh string int32 int32
| Infof_refreshAll_total nat
| Infof_refreshOne_delete string int32
| Infof_refreshOne_refresh uint64 string int32 int32
| Error_line error
| Errorf_refresh_failed kind error


text \<open>The requests a node sends to the remote coordinator, in the order it sends them.\<close>

datatype request =
  GetDataVersion_request uint64
| Update_request uint64 int32
| Get_request uint64
| SelectAllDataVersion_request

text \<open>
  \<open>proto.Marshal\<close> and \<open>proto.Unmarshal\<close> on \<open>po.PipelineInfo\<close> belong to the protobuf library
  and to generated code; every operation takes them as a parameter.
\<close>

record codec =
  Marshal :: "PipelineInfo \<Rightarrow> error + bytes"
  Unmarshal :: "bytes \<Rightarrow> error + PipelineInfo"

section \<open>The local store\<close>

text \<open>
  \<open>marshalId\<close> writes an id as 8 big-endian bytes (\<open>binary.BigEndian.PutUint64\<close>), the key
  under which the store files the record.
\<close>

definition big_endian :: "nat \<Rightarrow> 'a::len word \<Rightarrow> bytes" where
  "big_endian n w = map (\<lambda>i. ucast (drop_bit (8 * i) w)) (rev [0..<n])"

definition marshalId :: "uint64 \<Rightarrow> bytes" where
  "marshalId eid = big_endian 8 eid"

text \<open>
  Modelled from the spec: \<open>byteutils.BytesToUint64\<close> is missing; \<open>refreshAll\<close> uses it to read
  a key back, and the keys are the big-endian encodings of the ids.
\<close>

definition BytesToUint64 :: "bytes \<Rightarrow> uint64" where
  "BytesToUint64 k = word_rcat k"

text \<open>
  The pipeline bucket of the embedded store, as its cursor walks it: the records in ascending
  key order. The store orders the keys bytewise, that is in the numeric order of the ids
  they encode, and \<open>BytesToUint64\<close> undoes \<open>marshalId\<close> (lemma \<open>BytesToUint64_marshalId\<close>
  below): the model keys the bucket by the id itself, so that \<open>marshalId(id)\<close> reads \<open>id\<close> and
  \<open>BytesToUint64(k)\<close> reads \<open>k\<close> in the operations.
\<close>

type_synonym bucket = "(uint64 \<times> bytes) list"

fun insert_key :: "uint64 \<Rightarrow> 'v \<Rightarrow> (uint64 \<times> 'v) list \<Rightarrow> (uint64 \<times> 'v) list" where
  "insert_key k v [] = [(k, v)]"
| "insert_key k v ((k', v') # b) =
     (if k = k' then (k, v) # b
      else if k < k' then (k, v) # (k', v') # b
      else (k', v') # insert_key k v b)"

definition MaxValueSize :: nat where
  "MaxValueSize = 2 ^ 31 - 2"

definition Bucket_Put :: "uint64 \<Rightarrow> bytes \<Rightarrow> bucket \<Rightarrow> error + bucket" where
  "Bucket_Put k v b =
     (if MaxValueSize < length v then Inl ErrValueTooLarge else Inr (insert_key k v b))"

definition Bucket_Delete :: "uint64 \<Rightarrow> bucket \<Rightarrow> error + bucket" where
  "Bucket_Delete k b = Inr (filter (\<lambda>(k', v). k' \<noteq> k) b)"

definition Bucket_Get :: "uint64 \<Rightarrow> bucket \<Rightarrow> bytes option" where
  "Bucket_Get k b = map_of b k"

text \<open>
  What one node sees and changes: its local bucket, the state of the remote coordinator,
  its log and the requests it has sent. \<open>commit_error\<close> is the condition of the store's
  file: the error a commit meets when it writes to it, if any.
\<close>

record 'r world =
  bucket :: bucket
  remote :: 'r
  logs :: "log_entry list"
  sent :: "request list"
  commit_error :: "error option"

text \<open>
  \<open>_local.Update(fn)\<close> runs \<open>fn\<close> in a read-write transaction. When \<open>fn\<close> returns an error the
  writes to the bucket are rolled back and the error is returned. Otherwise the transaction
  is committed, and the error of the commit, if it meets one, is returned after the writes
  have been rolled back. Whatever \<open>fn\<close> did outside the store (a request to the coordinator)
  stays done in either case. \<open>_local.View(fn)\<close> only reads. The store is open for as long as
  the node runs, so that a transaction always begins. Of the errors of \<open>Put\<close> only the
  one an 8-byte key in a writable transaction can meet is modelled: a value longer than
  \<open>MaxValueSize\<close>.
\<close>

definition DB_Update ::
  "('r world \<Rightarrow> error option \<times> 'r world) \<Rightarrow> 'r world \<Rightarrow> error option \<times> 'r world" where
  "DB_Update fn w =
     (case fn w of
        (Some err, tx) \<Rightarrow> (Some err, tx\<lparr>bucket := bucket w\<rparr>)
      | (None, tx) \<Rightarrow>
          (case commit_error tx of
             Some err \<Rightarrow> (Some err, tx\<lparr>bucket := bucket w\<rparr>)
           | None \<Rightarrow> (None, tx)))"

definition DB_View :: "(bucket \<Rightarrow> 'a) \<Rightarrow> 'r world \<Rightarrow> 'a" where
  "DB_View fn w = fn (bucket w)"

definition tx_Put :: "uint64 \<Rightarrow> bytes \<Rightarrow> 'r world \<Rightarrow> error option \<times> 'r world" where
  "tx_Put k data tx =
     (case Bucket_Put k data (bucket tx) of
        Inl err \<Rightarrow> (Some err, tx)
      | Inr b \<Rightarrow> (None, tx\<lparr>bucket := b\<rparr>))"

definition tx_Delete :: "uint64 \<Rightarrow> 'r world \<Rightarrow> error option \<times> 'r world" where
  "tx_Delete k tx =
     (case Bucket_Delete k (bucket tx) of
        Inl err \<Rightarrow> (Some err, tx)
      | Inr b \<Rightarrow> (None, tx\<lparr>bucket := b\<rparr>))"

section \<open>The remote coordinator\<close>

text \<open>
  Modelled from the spec: the implementations of the \<open>PipelineDao\<close> interface (packages
  \<open>zookeeper\<close> and \<open>mysql\<close>) are missing; the interface is declared with the DAO globals.
  Following section 4.2 of the specification, the reads leave the coordinator as it is, and
  \<open>update\<close> either applies the write or rejects it with an error. \<open>Get\<close> returns a pointer and
  an error: \<open>Inl err\<close> is a non-nil error, \<open>Inr None\<close> the nil entity with a nil error (the case
  \<open>refreshOne\<close> tests for), \<open>Inr (Some e)\<close> a body.
\<close>

record 'r PipelineDao =
  remote_Update :: "PipelineInfo \<Rightarrow> int32 \<Rightarrow> 'r \<Rightarrow> error + 'r"
  remote_GetDataVersion :: "uint64 \<Rightarrow> 'r \<Rightarrow> error + int32"
  remote_Get :: "uint64 \<Rightarrow> 'r \<Rightarrow> error + PipelineInfo option"
  remote_SelectAllDataVersion :: "'r \<Rightarrow> error + MetadataVersion list"

datatype availability = Serving | ReadOnly | Unreachable

record Remote =
  entities :: "(uint64 \<times> PipelineInfo) list"
  availability :: availability

text \<open>
  The coordinator of section 4.2 of the specification holds the canonical body and version of
  every entity. It can be serving, serving reads only, or out of reach; a request it cannot
  serve fails with CoordinatorUnavailable.
\<close>

text \<open>
  Modelled from the spec: \<open>getDataVersion(id)\<close> of a missing \<open>PipelineDao\<close> implementation,
  the stored version or NotFound.
\<close>

definition coordinator_GetDataVersion :: "uint64 \<Rightarrow> Remote \<Rightarrow> error + int32" where
  "coordinator_GetDataVersion eid r =
     (if availability r = Unreachable then Inl CoordinatorUnavailable
      else case map_of (entities r) eid of
             None \<Rightarrow> Inl NotFound
           | Some e \<Rightarrow> Inr (DataVersion e))"

text \<open>
  Modelled from the spec: \<open>update(entity, expectedVersion)\<close> of a missing \<open>PipelineDao\<close>
  implementation, a compare-and-swap that fails with VersionConflict if the current remote
  version is not \<open>expectedVersion\<close>, and stores the entity otherwise.
\<close>

definition coordinator_Update :: "PipelineInfo \<Rightarrow> int32 \<Rightarrow> Remote \<Rightarrow> error + Remote" where
  "coordinator_Update entity expectedVersion r =
     (if availability r = Serving then
        (case map_of (entities r) (Id entity) of
           None \<Rightarrow> Inl NotFound
         | Some current \<Rightarrow>
             if DataVersion current = expectedVersion
             then Inr (r\<lparr>entities := insert_key (Id entity) entity (entities r)\<rparr>)
             else Inl VersionConflict)
      else Inl CoordinatorUnavailable)"

text \<open>
  Modelled from the spec: \<open>get(id)\<close> of a missing \<open>PipelineDao\<close> implementation, the stored
  entity or its absence. \<open>refreshOne\<close> is specified, and written, to go on when the entity is
  absent remotely, so absence is the nil entity with a nil error.
\<close>

definition coordinator_Get :: "uint64 \<Rightarrow> Remote \<Rightarrow> error + PipelineInfo option" where
  "coordinator_Get eid r =
     (if availability r = Unreachable then Inl CoordinatorUnavailable
      else Inr (map_of (entities r) eid))"

text \<open>
  Modelled from the spec: \<open>selectAllDataVersion()\<close> of a missing \<open>PipelineDao\<close> implementation,
  the manifest of the stored entities.
\<close>

definition coordinator_SelectAllDataVersion :: "Remote \<Rightarrow> error + MetadataVersion list" where
  "coordinator_SelectAllDataVersion r =
     (if availability r = Unreachable then Inl CoordinatorUnavailable
      else Inr (map (\<lambda>(k, e). \<lparr>mv_Id = k, mv_Version = DataVersion e\<rparr>) (entities r)))"

definition coordinator :: "Remote PipelineDao" where
  "coordinator =
     \<lparr>remote_Update = coordinator_Update,
      remote_GetDataVersion = coordinator_GetDataVersion,
      remote_Get = coordinator_Get,
      remote_SelectAllDataVersion = coordinator_SelectAllDataVersion\<rparr>"

section \<open>CompositePipelineDao\<close>

definition Save :: "codec \<Rightarrow> PipelineInfo \<Rightarrow> 'r world \<Rightarrow> error option \<times> 'r world" where
  "Save c entity w =
     DB_Update (\<lambda>tx. case Marshal c entity of
                        Inl err \<Rightarrow> (Some err, tx)
                      | Inr data \<Rightarrow> tx_Put (Id entity) data tx) w"

definition Delete :: "uint64 \<Rightarrow> 'r world \<Rightarrow> error option \<times> 'r world" where
  "Delete eid w = DB_Update (tx_Delete eid) w"

definition Get :: "codec \<Rightarrow> uint64 \<Rightarrow> 'r world \<Rightarrow> error + PipelineInfo" where
  "Get c eid w =
     DB_View (\<lambda>b. case Bucket_Get eid b of
                     None \<Rightarrow> Inl NotFound
                   | Some data \<Rightarrow> Unmarshal c data) w"

text \<open>
  \<open>CascadeUpdate\<close> writes \<open>entity.DataVersion\<close> through the pointer it is given: the model
  returns the entity as the caller finds it afterwards, next to the two results.
\<close>

definition CascadeUpdate ::
  "'r PipelineDao \<Rightarrow> codec \<Rightarrow> PipelineInfo \<Rightarrow> 'r world
     \<Rightarrow> (int32 \<times> error option) \<times> PipelineInfo \<times> 'r world" where
  "CascadeUpdate dao c entity w =
     (let w1 = w\<lparr>sent := sent w @ [GetDataVersion_request (Id entity)]\<rparr> in
      case remote_GetDataVersion dao (Id entity) (remote w) of
        Inl err \<Rightarrow> ((0, Some err), entity, w1)
      | Inr version \<Rightarrow>
          (let entity' = entity\<lparr>DataVersion := version + 1\<rparr> in
           case DB_Update
                  (\<lambda>tx. case Marshal c entity' of
                           Inl err \<Rightarrow> (Some err, tx)
                         | Inr data \<Rightarrow>
                             (case tx_Put (Id entity') data tx of
                                (Some err, tx1) \<Rightarrow> (Some err, tx1)
                              | (None, tx1) \<Rightarrow>
                                  (let tx2 = tx1\<lparr>sent := sent tx1
                                               @ [Update_request (Id entity') version]\<rparr> in
                                   case remote_Update dao entity' version (remote tx1) of
                                     Inl err \<Rightarrow> (Some err, tx2)
                                   | Inr r \<Rightarrow> (None, tx2\<lparr>remote := r\<rparr>)))) w1 of
             (Some err, w2) \<Rightarrow> ((version, Some err), entity', w2)
           | (None, w2) \<Rightarrow>
               ((DataVersion entity', None), entity',
                w2\<lparr>logs := logs w2 @ [Infof_CascadeUpdate (Name entity') version]\<rparr>)))"

text \<open>
  The cursor loop of \<open>GetByParam\<close>: the first record that deserializes and passes the
  filters ends the scan (\<open>found = true; break\<close>); a record that does not deserialize is
  passed over.
\<close>

fun GetByParam_scan :: "codec \<Rightarrow> PipelineInfoParams \<Rightarrow> bucket \<Rightarrow> PipelineInfo option" where
  "GetByParam_scan c params [] = None"
| "GetByParam_scan c params ((k, v) # rest) =
     (case Unmarshal c v of
        Inl err \<Rightarrow> GetByParam_scan c params rest
      | Inr entity \<Rightarrow>
          if params_Name params \<noteq> [] \<and> Name entity \<noteq> params_Name params
            then GetByParam_scan c params rest
          else if params_SourceId params \<noteq> 0 \<and> SourceId entity \<noteq> params_SourceId params
            then GetByParam_scan c params rest
          else if params_EndpointId params \<noteq> 0 \<and> EndpointId entity \<noteq> params_EndpointId params
            then GetByParam_scan c params rest
          else Some entity)"

definition GetByParam ::
  "codec \<Rightarrow> PipelineInfoParams \<Rightarrow> 'r world \<Rightarrow> (error + PipelineInfo) \<times> 'r world" where
  "GetByParam c params w =
     (case DB_View (\<lambda>b. (None :: error option, GetByParam_scan c params b)) w of
        (Some err, found) \<Rightarrow> (Inl err, w\<lparr>logs := logs w @ [Error_line err]\<rparr>)
      | (None, None) \<Rightarrow> (Inl NotFound, w)
      | (None, Some entity) \<Rightarrow> (Inr entity, w))"

text \<open>\<open>strings.Contains(s, substr)\<close>: \<open>substr\<close> occurs in \<open>s\<close> as a contiguous block.\<close>

definition Contains :: "string \<Rightarrow> string \<Rightarrow> bool" where
  "Contains s substr = sublist substr s"

text \<open>
  The cursor loop of \<open>SelectList\<close>; \<open>constants.PipelineInfoStatusDisable\<close> is declared outside
  the files at hand and is a parameter.
\<close>

fun SelectList_scan ::
  "codec \<Rightarrow> int32 \<Rightarrow> PipelineInfoParams \<Rightarrow> bucket \<Rightarrow> PipelineInfo list \<Rightarrow> PipelineInfo list" where
  "SelectList_scan c PipelineInfoStatusDisable params [] list = list"
| "SelectList_scan c PipelineInfoStatusDisable params ((k, v) # rest) list =
     (case Unmarshal c v of
        Inl err \<Rightarrow> SelectList_scan c PipelineInfoStatusDisable params rest list
      | Inr entity \<Rightarrow>
          if params_Name params \<noteq> [] \<and> \<not> Contains (Name entity) (params_Name params)
            then SelectList_scan c PipelineInfoStatusDisable params rest list
          else if params_SourceId params \<noteq> 0 \<and> SourceId entity \<noteq> params_SourceId params
            then SelectList_scan c PipelineInfoStatusDisable params rest list
          else if params_EndpointId params \<noteq> 0 \<and> EndpointId entity \<noteq> params_EndpointId params
            then SelectList_scan c PipelineInfoStatusDisable params rest list
          else if params_EndpointType params \<noteq> 0
                  \<and> EndpointType entity \<noteq> params_EndpointType params
            then SelectList_scan c PipelineInfoStatusDisable params rest list
          else if params_Enable params \<and> Status entity = PipelineInfoStatusDisable
            then SelectList_scan c PipelineInfoStatusDisable params rest list
          else SelectList_scan c PipelineInfoStatusDisable params rest (list @ [entity]))"

definition SelectList ::
  "codec \<Rightarrow> int32 \<Rightarrow> PipelineInfoParams \<Rightarrow> 'r world \<Rightarrow> (error + PipelineInfo list) \<times> 'r world" where
  "SelectList c PipelineInfoStatusDisable params w =
     (case DB_View (\<lambda>b. (None :: error option,
                          SelectList_scan c PipelineInfoStatusDisable params b [])) w of
        (Some err, list) \<Rightarrow> (Inl err, w\<lparr>logs := logs w @ [Error_line err]\<rparr>)
      | (None, list) \<Rightarrow> (Inr list, w))"







text \<open>
  \<open>refreshOne\<close>. \<open>s.Get\<close> returns a non-nil entity exactly when it returns no error, so past
  the second error check \<open>entity\<close> is never nil; the model keeps the pointer as an option to
  read like the source.
\<close>

definition refreshOne ::
  "'r PipelineDao \<Rightarrow> codec \<Rightarrow> uint64 \<Rightarrow> int32 \<Rightarrow> 'r world \<Rightarrow> error option \<times> 'r world" where
  "refreshOne dao c eid standardVersion w =
     (let w1 = w\<lparr>sent := sent w @ [Get_request eid]\<rparr> in
      case remote_Get dao eid (remote w) of
        Inl err \<Rightarrow> (Some err, w1)
      | Inr standardEntity \<Rightarrow>
          (case Get c eid w1 of
             Inl err \<Rightarrow> (Some err, w1)
           | Inr found \<Rightarrow>
               (let entity = Some found;
                    version = (case entity of None \<Rightarrow> - 1 | Some e \<Rightarrow> DataVersion e) in
                case (standardEntity, entity) of
                  (None, Some e) \<Rightarrow>
                    Delete eid
                      (w1\<lparr>logs := logs w1
                           @ [Infof_refreshOne_delete (Name e) (DataVersion e)]\<rparr>)
                | (None, None) \<Rightarrow> (None, w1)
                | (Some standard, _) \<Rightarrow>
                    if version <s standardVersion
                    then Save c standard
                           (w1\<lparr>logs := logs w1
                                @ [Infof_refreshOne_refresh eid (Name standard) version
                                     (DataVersion standard)]\<rparr>)
                    else (None, w1))))"

section \<open>The package functions\<close>






section \<open>BatchEndpoint\<close>

text \<open>
  \<open>parseByLua\<close> and \<open>parseByRegular\<close> are methods of \<open>Endpoint\<close>, declared outside the files at
  hand: each is a parameter that takes a request and the state it works on (the rule
  context, the Lua machine) and returns its error and the state it leaves. Of a parse step
  \<open>Batch\<close> keeps the error only.
\<close>

type_synonym Message = bytes

fun Batch_parse ::
  "('q \<Rightarrow> 's \<Rightarrow> error option \<times> 's) \<Rightarrow> 'q list \<Rightarrow> 's \<Rightarrow> error option \<times> 's" where
  "Batch_parse parse [] s = (None, s)"
| "Batch_parse parse (request # rest) s =
     (case parse request s of
        (Some err, s1) \<Rightarrow> (Some err, s1)
      | (None, s1) \<Rightarrow> Batch_parse parse rest s1)"

definition Batch ::
  "bool \<Rightarrow> ('q \<Rightarrow> 's \<Rightarrow> error option \<times> 's) \<Rightarrow> ('q \<Rightarrow> 's \<Rightarrow> error option \<times> 's)
     \<Rightarrow> 'q list \<Rightarrow> 's \<Rightarrow> (int64 \<times> error option) \<times> 's" where
  "Batch IsLuaEnable parseByLua parseByRegular requests s =
     (let messages = ([] :: Message list) in
      case (if IsLuaEnable then Batch_parse parseByLua requests s
            else Batch_parse parseByRegular requests s) of
        (Some err, s1) \<Rightarrow> ((0, Some err), s1)
      | (None, s1) \<Rightarrow>
          if length messages = 0 then ((0, None), s1)
          else ((of_nat (length messages), None), s1))"

section \<open>The reconciliation plan and the scan filters, as the specification words them\<close>




text \<open>The records of a bucket that deserialize, in cursor order.\<close>

definition readable :: "codec \<Rightarrow> bucket \<Rightarrow> PipelineInfo list" where
  "readable c b =
     List.map_filter (\<lambda>(k, v). case Unmarshal c v of Inl err \<Rightarrow> None | Inr e \<Rightarrow> Some e) b"

text \<open>
  A filter field left at its zero value does not constrain. \<open>SelectList\<close> matches the name by
  substring, \<open>GetByParam\<close> by equality; the linked ids and the endpoint type match by equality.
\<close>

definition SelectList_matches :: "int32 \<Rightarrow> PipelineInfoParams \<Rightarrow> PipelineInfo \<Rightarrow> bool" where
  "SelectList_matches PipelineInfoStatusDisable params e \<longleftrightarrow>
     (params_Name params = [] \<or> sublist (params_Name params) (Name e))
     \<and> (params_SourceId params = 0 \<or> SourceId e = params_SourceId params)
     \<and> (params_EndpointId params = 0 \<or> EndpointId e = params_EndpointId params)
     \<and> (params_EndpointType params = 0 \<or> EndpointType e = params_EndpointType params)
     \<and> \<not> (params_Enable params \<and> Status e = PipelineInfoStatusDisable)"

definition GetByParam_matches :: "PipelineInfoParams \<Rightarrow> PipelineInfo \<Rightarrow> bool" where
  "GetByParam_matches params e \<longleftrightarrow>
     (params_Name params = [] \<or> Name e = params_Name params)
     \<and> (params_SourceId params = 0 \<or> SourceId e = params_SourceId params)
     \<and> (params_EndpointId params = 0 \<or> EndpointId e = params_EndpointId params)"

section \<open>A reference codec and sample states\<close>

text \<open>
  A fixed-width wire format to run the operations on: the numeric fields big-endian, the name
  last. Fewer than 36 bytes do not deserialize.
\<close>

definition wire_encode :: "PipelineInfo \<Rightarrow> bytes" where
  "wire_encode e =
     big_endian 8 (Id e) @ big_endian 8 (SourceId e) @ big_endian 8 (EndpointId e)
     @ big_endian 4 (EndpointType e) @ big_endian 4 (Status e) @ big_endian 4 (DataVersion e)
     @ map of_char (Name e)"

definition wire_decode :: "bytes \<Rightarrow> error + PipelineInfo" where
  "wire_decode data =
     (if length data < 36 then Inl SerializationError
      else Inr \<lparr>Id = word_rcat (take 8 data),
                Name = map (\<lambda>b. char_of (unat b)) (drop 36 data),
                SourceId = word_rcat (take 8 (drop 8 data)),
                EndpointId = word_rcat (take 8 (drop 16 data)),
                EndpointType = word_rcat (take 4 (drop 24 data)),
                Status = word_rcat (take 4 (drop 28 data)),
                DataVersion = word_rcat (take 4 (drop 32 data))\<rparr>)"

definition wire :: codec where
  "wire = \<lparr>Marshal = (\<lambda>e. Inr (wire_encode e)), Unmarshal = wire_decode\<rparr>"

definition pipeline :: "uint64 \<Rightarrow> string \<Rightarrow> int32 \<Rightarrow> PipelineInfo" where
  "pipeline eid name version =
     \<lparr>Id = eid, Name = name, SourceId = 10, EndpointId = 20, EndpointType = 0, Status = 0,
      DataVersion = version\<rparr>"

definition node :: "bucket \<Rightarrow> 'r \<Rightarrow> 'r world" where
  "node b r = \<lparr>bucket = b, remote = r, logs = [], sent = [], commit_error = None\<rparr>"

definition serving :: "(uint64 \<times> PipelineInfo) list \<Rightarrow> Remote" where
  "serving es = \<lparr>entities = es, availability = Serving\<rparr>"

definition read_only :: "(uint64 \<times> PipelineInfo) list \<Rightarrow> Remote" where
  "read_only es = \<lparr>entities = es, availability = ReadOnly\<rparr>"



definition named :: "string \<Rightarrow> PipelineInfoParams" where
  "named name =
     \<lparr>params_Name = name, params_SourceId = 0, params_EndpointId = 0, params_EndpointType = 0,
      params_Enable = False\<rparr>"



section \<open>Basic facts\<close>

lemma map_of_insert_key: "map_of (insert_key k v b) = (map_of b)(k \<mapsto> v)"
  by (induction b) (auto simp: fun_eq_iff)

lemma Get_bucket:
  "Get c eid w =
     (case map_of (bucket w) eid of None \<Rightarrow> Inl NotFound | Some data \<Rightarrow> Unmarshal c data)"
  by (simp add: Get_def DB_View_def Bucket_Get_def)

lemma take_bit_step:
  "take_bit (m + n) (x :: int) = take_bit m x + push_bit m (take_bit n (drop_bit m x))"
proof -
  have "take_bit (m + n) x
          = push_bit m (drop_bit m (take_bit (m + n) x)) + take_bit m (take_bit (m + n) x)"
    by (simp only: bits_ident)
  also have "drop_bit m (take_bit (m + n) x) = take_bit n (drop_bit m x)"
    by (simp add: take_bit_drop_bit add.commute)
  also have "take_bit m (take_bit (m + n) x) = take_bit m x"
    by simp
  finally show ?thesis
    by simp
qed

lemma horner_big_endian:
  "horner_sum uint 256 (map (\<lambda>i. (ucast (drop_bit (8 * i) w) :: 8 word)) [0..<n])
     = take_bit (8 * n) (uint (w :: 'a::len word))"
proof (induction n)
  case 0
  then show ?case by simp
next
  case (Suc n)
  have byte: "uint (ucast (drop_bit (8 * n) w) :: 8 word) = take_bit 8 (drop_bit (8 * n) (uint w))"
    by (simp add: unsigned_ucast_eq unsigned_drop_bit_eq bintr_uint)
  have "(2 :: int) ^ (8 * n) = 256 ^ n"
    by (simp add: power_mult)
  then have step: "take_bit (8 * Suc n) (uint w)
      = take_bit (8 * n) (uint w) + 256 ^ n * take_bit 8 (drop_bit (8 * n) (uint w))"
    using take_bit_step [of "8 * n" 8 "uint w"]
    by (simp add: push_bit_eq_mult mult.commute add.commute)
  have "horner_sum uint 256 (map (\<lambda>i. (ucast (drop_bit (8 * i) w) :: 8 word)) [0..<Suc n])
      = horner_sum uint 256 (map (\<lambda>i. (ucast (drop_bit (8 * i) w) :: 8 word)) [0..<n])
        + 256 ^ n * uint (ucast (drop_bit (8 * n) w) :: 8 word)"
    by (simp add: horner_sum_append)
  then show ?case
    by (simp only: Suc.IH byte step)
qed

lemma word_rcat_big_endian:
  "LENGTH('a::len) \<le> 8 * n \<Longrightarrow> word_rcat (big_endian n (w :: 'a word)) = w"
  by (simp add: word_rcat_def big_endian_def rev_map horner_big_endian bintr_uint)

lemma length_big_endian: "length (big_endian n w) = n"
  by (simp add: big_endian_def)

lemma BytesToUint64_marshalId: "BytesToUint64 (marshalId eid) = eid"
  by (simp add: BytesToUint64_def marshalId_def word_rcat_big_endian)

lemma marshalId_inj: "marshalId a = marshalId b \<longleftrightarrow> a = b"
  by (metis BytesToUint64_marshalId)

lemma length_marshalId: "length (marshalId eid) = 8"
  by (simp add: marshalId_def length_big_endian)

lemma char_of_byte: "char_of (unat (of_char ch :: 8 word)) = ch"
proof -
  have "(of_char ch :: 8 word) = of_nat (of_char ch)"
    by (simp only: of_nat_of_char)
  then have "unat (of_char ch :: 8 word) = (of_char ch :: nat) mod 2 ^ 8"
    by (simp only: unat_of_nat) simp
  also have "\<dots> = of_char ch"
    using nat_of_char_less_256 [of ch] by simp
  finally show ?thesis
    by simp
qed

lemma length_wire_encode: "length (wire_encode e) = 36 + length (Name e)"
  by (simp add: wire_encode_def big_endian_def)

lemma wire_roundtrip: "wire_decode (wire_encode e) = Inr e"
  by (simp add: wire_decode_def wire_encode_def length_big_endian word_rcat_big_endian
        char_of_byte comp_def)

lemma wire_fits: "length (Name e) < 1000 \<Longrightarrow> \<not> MaxValueSize < length (wire_encode e)"
  by (simp add: length_wire_encode MaxValueSize_def)

lemma pipeline_fields:
  "Id (pipeline eid name version) = eid"
  "Name (pipeline eid name version) = name"
  "DataVersion (pipeline eid name version) = version"
  "SourceId (pipeline eid name version) = 10"
  "EndpointId (pipeline eid name version) = 20"
  "EndpointType (pipeline eid name version) = 0"
  "Status (pipeline eid name version) = 0"
  "(pipeline eid name version)\<lparr>DataVersion := version'\<rparr> = pipeline eid name version'"
  by (simp_all add: pipeline_def)

section \<open>CascadeUpdate\<close>

text \<open>
  Claim C1. When \<open>CascadeUpdate\<close> succeeds on a coordinator whose stored version of the entity
  is \<open>v\<close>, it returns \<open>v + 1\<close>, the coordinator's version of the entity is \<open>v + 1\<close> afterwards,
  and the local bucket holds under the entity's id the serialized body with \<open>DataVersion\<close>
  \<open>v + 1\<close>, which is what a local \<open>Get\<close> then deserializes. The sum is Go's \<open>int32\<close> sum.
\<close>

theorem CascadeUpdate_success:
  assumes "coordinator_GetDataVersion (Id entity) (remote w) = Inr v"
      and "CascadeUpdate coordinator c entity w = ((version, None), entity', w')"
  shows "version = v + 1
       \<and> coordinator_GetDataVersion (Id entity) (remote w') = Inr (v + 1)
       \<and> (\<exists>data. Marshal c (entity\<lparr>DataVersion := v + 1\<rparr>) = Inr data
               \<and> Bucket_Get (Id entity) (bucket w') = Some data
               \<and> Get c (Id entity) w' = Unmarshal c data)"
  using assms
  by (auto simp: CascadeUpdate_def coordinator_def Let_def DB_Update_def tx_Put_def
        Bucket_Put_def Bucket_Get_def Get_def DB_View_def map_of_insert_key
        coordinator_GetDataVersion_def coordinator_Update_def
      split: sum.splits option.splits if_splits prod.splits)

lemma CascadeUpdate_rename:
  "CascadeUpdate coordinator wire (pipeline 1 ''p1-renamed'' 0)
     (node [(1, wire_encode (pipeline 1 ''p1'' 0))] (serving [(1, pipeline 1 ''p1'' 0)]))
   = ((1, None), pipeline 1 ''p1-renamed'' 1,
      \<lparr>bucket = [(1, wire_encode (pipeline 1 ''p1-renamed'' 1))],
       remote = serving [(1, pipeline 1 ''p1-renamed'' 1)],
       logs = [Infof_CascadeUpdate ''p1-renamed'' 0],
       sent = [GetDataVersion_request 1, Update_request 1 0], commit_error = None\<rparr>)"
  by (simp add: CascadeUpdate_def coordinator_def coordinator_GetDataVersion_def
        coordinator_Update_def serving_def node_def wire_def Let_def DB_Update_def tx_Put_def
        Bucket_Put_def wire_fits pipeline_fields)

theorem CascadeUpdate_success_witness:
  "coordinator_GetDataVersion 1 (serving [(1, pipeline 1 ''p1'' 0)]) = Inr 0
   \<and> fst (CascadeUpdate coordinator wire (pipeline 1 ''p1-renamed'' 0)
        (node [(1, wire_encode (pipeline 1 ''p1'' 0))] (serving [(1, pipeline 1 ''p1'' 0)])))
       = (1, None)
   \<and> coordinator_GetDataVersion 1 (serving [(1, pipeline 1 ''p1-renamed'' 1)]) = Inr 1
   \<and> Bucket_Get 1 [(1, wire_encode (pipeline 1 ''p1-renamed'' 1))]
       = Some (wire_encode (pipeline 1 ''p1-renamed'' 1))"
proof -
  have read: "coordinator_GetDataVersion (Id (pipeline 1 ''p1-renamed'' 0))
      (remote (node [(1, wire_encode (pipeline 1 ''p1'' 0))] (serving [(1, pipeline 1 ''p1'' 0)])))
      = Inr 0"
    by (simp add: coordinator_GetDataVersion_def serving_def node_def pipeline_fields)
  show ?thesis
    using CascadeUpdate_success [OF read CascadeUpdate_rename] read CascadeUpdate_rename
    by (simp add: node_def pipeline_fields wire_def)
qed

text \<open>
  Claim C2. When the compare-and-swap that \<open>CascadeUpdate\<close> issues is rejected (the version was
  read, the body serialized and written inside the transaction, and the coordinator's \<open>Update\<close>
  returns an error), \<open>CascadeUpdate\<close> returns that error, the transaction is rolled back, and
  the local bucket and the coordinator are what they were before the call: of the node's
  state only the list of requests sent has grown.
\<close>

theorem CascadeUpdate_failed_cas:
  assumes "remote_GetDataVersion dao (Id entity) (remote w) = Inr v"
      and "Marshal c (entity\<lparr>DataVersion := v + 1\<rparr>) = Inr data"
      and "length data \<le> MaxValueSize"
      and "remote_Update dao (entity\<lparr>DataVersion := v + 1\<rparr>) v (remote w) = Inl err"
  shows "CascadeUpdate dao c entity w =
           ((v, Some err), entity\<lparr>DataVersion := v + 1\<rparr>,
            w\<lparr>sent := sent w @ [GetDataVersion_request (Id entity),
                                 Update_request (Id entity) v]\<rparr>)
       \<and> bucket (snd (snd (CascadeUpdate dao c entity w))) = bucket w
       \<and> remote (snd (snd (CascadeUpdate dao c entity w))) = remote w"
  using assms
  by (simp add: CascadeUpdate_def Let_def DB_Update_def tx_Put_def Bucket_Put_def)

theorem CascadeUpdate_failed_cas_witness:
  "coordinator_GetDataVersion 1 (read_only [(1, pipeline 1 ''p1'' 3)]) = Inr 3
   \<and> coordinator_Update (pipeline 1 ''p1-renamed'' 4) 3 (read_only [(1, pipeline 1 ''p1'' 3)])
       = Inl CoordinatorUnavailable
   \<and> CascadeUpdate coordinator wire (pipeline 1 ''p1-renamed'' 3)
        (node [(1, wire_encode (pipeline 1 ''p1'' 3))] (read_only [(1, pipeline 1 ''p1'' 3)]))
       = ((3, Some CoordinatorUnavailable), pipeline 1 ''p1-renamed'' 4,
          \<lparr>bucket = [(1, wire_encode (pipeline 1 ''p1'' 3))],
           remote = read_only [(1, pipeline 1 ''p1'' 3)],
           logs = [],
           sent = [GetDataVersion_request 1, Update_request 1 3], commit_error = None\<rparr>)"
proof -
  let ?w = "node [(1, wire_encode (pipeline 1 ''p1'' 3))] (read_only [(1, pipeline 1 ''p1'' 3)])"
  let ?e = "pipeline 1 ''p1-renamed'' 3"
  have read: "remote_GetDataVersion coordinator (Id ?e) (remote ?w) = Inr 3"
    by (simp add: coordinator_def coordinator_GetDataVersion_def read_only_def node_def
          pipeline_fields)
  have body: "Marshal wire (?e\<lparr>DataVersion := 3 + 1\<rparr>) = Inr (wire_encode (pipeline 1 ''p1-renamed'' 4))"
    by (simp add: wire_def pipeline_fields)
  have fits: "length (wire_encode (pipeline 1 ''p1-renamed'' 4)) \<le> MaxValueSize"
    by (simp add: length_wire_encode MaxValueSize_def pipeline_fields)
  have cas: "remote_Update coordinator (?e\<lparr>DataVersion := 3 + 1\<rparr>) 3 (remote ?w)
               = Inl CoordinatorUnavailable"
    by (simp add: coordinator_def coordinator_Update_def read_only_def node_def)
  show ?thesis
    using CascadeUpdate_failed_cas [OF read body fits cas] read cas
    by (simp add: node_def pipeline_fields coordinator_def)
qed





section \<open>refreshOne\<close>

text \<open>
  Claim C3. The claim asks that \<open>refreshOne\<close> inserts the remote body when the local cache
  has no copy of the id. The code does not. When the local bucket has no copy of the id and
  the coordinator has answered the fetch, the lookup \<open>s.Get(id)\<close> answers NotFound, which
  \<open>refreshOne\<close> returns at once: nothing is stored, and of the node's state only the list of
  requests sent has grown.
\<close>

theorem refreshOne_absent_local:
  assumes "Bucket_Get eid (bucket w) = None"
      and "remote_Get dao eid (remote w) = Inr standardEntity"
  shows "refreshOne dao c eid standardVersion w
           = (Some NotFound, w\<lparr>sent := sent w @ [Get_request eid]\<rparr>)"
  using assms by (simp add: refreshOne_def Get_def DB_View_def)

theorem refreshOne_absent_local_witness:
  "Bucket_Get 3 [] = None
   \<and> coordinator_Get 3 (serving [(3, pipeline 3 ''p3'' 1)]) = Inr (Some (pipeline 3 ''p3'' 1))
   \<and> refreshOne coordinator wire 3 1 (node [] (serving [(3, pipeline 3 ''p3'' 1)]))
       = (Some NotFound,
          \<lparr>bucket = [], remote = serving [(3, pipeline 3 ''p3'' 1)], logs = [],
           sent = [Get_request 3], commit_error = None\<rparr>)"
proof -
  let ?w = "node [] (serving [(3, pipeline 3 ''p3'' 1)])"
  have absent: "Bucket_Get 3 (bucket ?w) = None"
    by (simp add: node_def Bucket_Get_def)
  have body: "remote_Get coordinator 3 (remote ?w) = Inr (Some (pipeline 3 ''p3'' 1))"
    by (simp add: node_def coordinator_def coordinator_Get_def serving_def)
  show ?thesis
    using refreshOne_absent_local [OF absent body, of wire 1] absent body
    by (simp add: node_def coordinator_def)
qed

text \<open>
  The other half of the claim holds: a strictly older local copy is overwritten, when the
  transaction commits.
\<close>

lemma refreshOne_stale_local:
  assumes "Get c eid w = Inr e"
      and "DataVersion e <s standardVersion"
      and "remote_Get dao eid (remote w) = Inr (Some standard)"
      and "Marshal c standard = Inr data"
      and "length data \<le> MaxValueSize"
      and "commit_error w = None"
  shows "refreshOne dao c eid standardVersion w
           = (None,
              w\<lparr>bucket := insert_key (Id standard) data (bucket w),
                logs := logs w @ [Infof_refreshOne_refresh eid (Name standard) (DataVersion e)
                                    (DataVersion standard)],
                sent := sent w @ [Get_request eid]\<rparr>)"
  using assms
  by (simp add: refreshOne_def Get_bucket Save_def DB_Update_def tx_Put_def Bucket_Put_def
      split: option.splits)

lemma Delete_returns:
  "Delete eid w =
     (case commit_error w of
        None \<Rightarrow> (None, w\<lparr>bucket := filter (\<lambda>(k, v). k \<noteq> eid) (bucket w)\<rparr>)
      | Some err \<Rightarrow> (Some err, w))"
  by (simp add: Delete_def DB_Update_def tx_Delete_def Bucket_Delete_def split: option.splits)

lemma map_of_filter_keys:
  "map_of (filter (\<lambda>(k, v). k \<notin> D) b) eid = (if eid \<in> D then None else map_of b eid)"
  by (induction b) auto

lemma map_of_filter_key: "map_of (filter (\<lambda>(k, v). k \<noteq> eid) b) eid = None"
  using map_of_filter_keys [of "{eid}" b eid] by simp

text \<open>
  Claim C5, as amended. Let the local cache hold a readable copy of the id. When its
  \<open>DataVersion\<close> is greater than or equal to \<open>v\<close> and the coordinator does not report the entity
  absent (it returns a body or an error), \<open>refreshOne(id, v)\<close> neither deletes nor overwrites:
  of the node's state only the list of requests sent has grown, and the result is the
  coordinator's error if there was one, nil otherwise. When the coordinator reports the
  entity absent, \<open>refreshOne(id, v)\<close> logs the deletion and deletes the local copy, whatever
  its version, and returns nil; only if the commit of the deletion fails does it return
  that error, with the copy still there.
\<close>

theorem refreshOne_local_copy:
  assumes "Get c eid w = Inr e"
  shows "(standardVersion <=s DataVersion e \<and> remote_Get dao eid (remote w) \<noteq> Inr None \<longrightarrow>
            refreshOne dao c eid standardVersion w
              = (case remote_Get dao eid (remote w) of
                   Inl err \<Rightarrow> Some err
                 | Inr standardEntity \<Rightarrow> None,
                 w\<lparr>sent := sent w @ [Get_request eid]\<rparr>))
       \<and> (remote_Get dao eid (remote w) = Inr None \<longrightarrow>
            refreshOne dao c eid standardVersion w
              = (commit_error w,
                 w\<lparr>bucket := (case commit_error w of
                                 None \<Rightarrow> filter (\<lambda>(k, v). k \<noteq> eid) (bucket w)
                               | Some err \<Rightarrow> bucket w),
                   logs := logs w @ [Infof_refreshOne_delete (Name e) (DataVersion e)],
                   sent := sent w @ [Get_request eid]\<rparr>)
            \<and> (commit_error w = None \<longrightarrow>
                 Bucket_Get eid (bucket (snd (refreshOne dao c eid standardVersion w))) = None))"
  using assms
  by (auto simp: refreshOne_def Get_bucket word_sless_alt word_sle_eq Delete_returns
        Bucket_Get_def map_of_filter_key
      split: sum.splits option.splits)

theorem refreshOne_local_copy_witness:
  "Get wire 1 (node [(1, wire_encode (pipeline 1 ''p1'' 5))] (serving [(1, pipeline 1 ''p1'' 5)]))
     = Inr (pipeline 1 ''p1'' 5)
   \<and> 3 <=s DataVersion (pipeline 1 ''p1'' 5)
   \<and> coordinator_Get 1 (serving [(1, pipeline 1 ''p1'' 5)]) = Inr (Some (pipeline 1 ''p1'' 5))
   \<and> refreshOne coordinator wire 1 3
        (node [(1, wire_encode (pipeline 1 ''p1'' 5))] (serving [(1, pipeline 1 ''p1'' 5)]))
       = (None,
          \<lparr>bucket = [(1, wire_encode (pipeline 1 ''p1'' 5))],
           remote = serving [(1, pipeline 1 ''p1'' 5)], logs = [], sent = [Get_request 1],
           commit_error = None\<rparr>)
   \<and> coordinator_Get 1 (serving []) = Inr None
   \<and> refreshOne coordinator wire 1 9
        (node [(1, wire_encode (pipeline 1 ''p1'' 5))] (serving []))
       = (None,
          \<lparr>bucket = [], remote = serving [],
           logs = [Infof_refreshOne_delete ''p1'' 5], sent = [Get_request 1],
           commit_error = None\<rparr>)"
proof -
  let ?w = "node [(1, wire_encode (pipeline 1 ''p1'' 5))] (serving [(1, pipeline 1 ''p1'' 5)])"
  let ?v = "node [(1, wire_encode (pipeline 1 ''p1'' 5))] (serving [])"
  have copy: "Get wire 1 ?w = Inr (pipeline 1 ''p1'' 5)"
    by (simp add: Get_bucket node_def wire_def wire_roundtrip)
  have copy': "Get wire 1 ?v = Inr (pipeline 1 ''p1'' 5)"
    by (simp add: Get_bucket node_def wire_def wire_roundtrip)
  have fresh: "3 <=s DataVersion (pipeline 1 ''p1'' 5)"
    by (simp add: pipeline_fields word_sle_eq)
  have body: "remote_Get coordinator 1 (remote ?w) = Inr (Some (pipeline 1 ''p1'' 5))"
    by (simp add: node_def coordinator_def coordinator_Get_def serving_def)
  have absent: "remote_Get coordinator 1 (remote ?v) = Inr None"
    by (simp add: node_def coordinator_def coordinator_Get_def serving_def)
  show ?thesis
    using refreshOne_local_copy [OF copy, of 3 coordinator]
      refreshOne_local_copy [OF copy', of 9 coordinator] copy fresh body absent
    by (simp add: node_def coordinator_def pipeline_fields)
qed

text \<open>
  The claim as stated fails when the coordinator reports the entity absent: the local copy
  of version 5 is deleted by \<open>refreshOne(1, 3)\<close>.
\<close>

theorem refreshOne_deletes_counterexample:
  "Get wire 1 (node [(1, wire_encode (pipeline 1 ''p1'' 5))] (serving [])) = Inr (pipeline 1 ''p1'' 5)
   \<and> 3 <=s DataVersion (pipeline 1 ''p1'' 5)
   \<and> refreshOne coordinator wire 1 3 (node [(1, wire_encode (pipeline 1 ''p1'' 5))] (serving []))
       = (None,
          \<lparr>bucket = [], remote = serving [],
           logs = [Infof_refreshOne_delete ''p1'' 5], sent = [Get_request 1], commit_error = None\<rparr>)"
  by (simp add: refreshOne_def Get_bucket node_def wire_def wire_roundtrip coordinator_def
        coordinator_Get_def serving_def Delete_def DB_Update_def tx_Delete_def Bucket_Delete_def
        pipeline_fields word_sle_eq Let_def)

section \<open>Batch\<close>

text \<open>
  Claim C9. When every parse step of the run succeeds, that is when the loop over the
  requests ends without an error, \<open>Batch\<close> returns the count 0 and a nil error, however many
  requests it was given: \<open>messages\<close> is never appended to.
\<close>

theorem Batch_reports_nothing:
  assumes "fst (Batch_parse (if IsLuaEnable then parseByLua else parseByRegular) requests s)
             = None"
  shows "Batch IsLuaEnable parseByLua parseByRegular requests s
           = ((0, None),
              snd (Batch_parse (if IsLuaEnable then parseByLua else parseByRegular) requests s))"
proof (cases IsLuaEnable)
  case True
  then show ?thesis
    using assms by (cases "Batch_parse parseByLua requests s") (simp add: Batch_def)
next
  case False
  then show ?thesis
    using assms by (cases "Batch_parse parseByRegular requests s") (simp add: Batch_def)
qed

text \<open>A parser that succeeds on the run and would fail in another state.\<close>

theorem Batch_reports_nothing_witness:
  "fst (Batch_parse
          (\<lambda>request s. if s = 100 then (Some SerializationError, s) else (None, s + request))
          [1, 2, 3 :: nat] (0 :: nat)) = None
   \<and> Batch False (\<lambda>request s. (Some SerializationError, s))
        (\<lambda>request s. if s = 100 then (Some SerializationError, s) else (None, s + request))
        [1, 2, 3 :: nat] (0 :: nat) = ((0, None), 6)"
proof -
  have run: "fst (Batch_parse
      (if False then (\<lambda>request s. (Some SerializationError, s))
       else (\<lambda>request s. if s = 100 then (Some SerializationError, s) else (None, s + request)))
      [1, 2, 3 :: nat] (0 :: nat)) = None"
    by simp
  show ?thesis
    using Batch_reports_nothing [OF run] run
    by simp
qed

section \<open>The scans\<close>

lemma readable_Nil: "readable c [] = []"
  by (simp add: readable_def List.map_filter_simps)

lemma readable_Cons:
  "readable c ((k, v) # b) =
     (case Unmarshal c v of Inl err \<Rightarrow> readable c b | Inr e \<Rightarrow> e # readable c b)"
  by (simp add: readable_def List.map_filter_simps split: sum.splits)

lemma readable_append: "readable c (b1 @ b2) = readable c b1 @ readable c b2"
  by (induction b1) (auto simp: readable_Nil readable_Cons split: sum.splits)

lemma SelectList_scan_eq:
  "SelectList_scan c disabled params b list
     = list @ filter (SelectList_matches disabled params) (readable c b)"
proof (induction b arbitrary: list)
  case Nil
  then show ?case by (simp add: readable_Nil)
next
  case (Cons kv b)
  obtain k v where kv: "kv = (k, v)" by (cases kv)
  show ?case
    unfolding kv
    by (cases "Unmarshal c v")
       (auto simp: Cons.IH readable_Cons SelectList_matches_def Contains_def)
qed

lemma GetByParam_scan_eq:
  "GetByParam_scan c params b = find (GetByParam_matches params) (readable c b)"
proof (induction b)
  case Nil
  then show ?case by (simp add: readable_Nil)
next
  case (Cons kv b)
  obtain k v where kv: "kv = (k, v)" by (cases kv)
  show ?case
    unfolding kv
    by (cases "Unmarshal c v") (auto simp: Cons.IH readable_Cons GetByParam_matches_def)
qed

lemma SelectList_eq:
  "SelectList c disabled params w
     = (Inr (filter (SelectList_matches disabled params) (readable c (bucket w))), w)"
  by (simp add: SelectList_def DB_View_def SelectList_scan_eq)

lemma GetByParam_eq:
  "GetByParam c params w
     = (case find (GetByParam_matches params) (readable c (bucket w)) of
          None \<Rightarrow> Inl NotFound
        | Some entity \<Rightarrow> Inr entity, w)"
  by (simp add: GetByParam_def DB_View_def GetByParam_scan_eq split: option.splits)

text \<open>
  Claim C7, as amended. \<open>SelectList\<close> returns, in cursor order, the records that deserialize
  and pass its filters, where a non-empty name filter passes a record exactly when the
  record's name contains it as a substring. \<open>GetByParam\<close> returns the first record that
  deserializes and passes its filters, where a non-empty name filter passes a record exactly
  when the record's name equals it, and fails with NotFound when there is none. In both, a
  non-zero \<open>SourceId\<close> or \<open>EndpointId\<close> filter passes a record exactly when the field is equal.
\<close>

theorem scan_filters:
  "SelectList c PipelineInfoStatusDisable params w
     = (Inr (filter (SelectList_matches PipelineInfoStatusDisable params)
               (readable c (bucket w))), w)
   \<and> GetByParam c params w
     = (case find (GetByParam_matches params) (readable c (bucket w)) of
          None \<Rightarrow> Inl NotFound
        | Some entity \<Rightarrow> Inr entity, w)"
  by (simp add: SelectList_eq GetByParam_eq)

lemma sublist_p1: "sublist ''p1'' ''p1-renamed''"
  by code_simp

lemma not_sublist_p1: "\<not> sublist ''p1'' ''p2''"
  by code_simp

theorem scan_filters_witness:
  "SelectList wire 1 (named ''p1'')
     (node [(1, wire_encode (pipeline 1 ''p1-renamed'' 1)), (2, wire_encode (pipeline 2 ''p2'' 1))]
        (serving []))
     = (Inr [pipeline 1 ''p1-renamed'' 1],
        node [(1, wire_encode (pipeline 1 ''p1-renamed'' 1)), (2, wire_encode (pipeline 2 ''p2'' 1))]
          (serving []))
   \<and> GetByParam wire (named ''p1'')
     (node [(1, wire_encode (pipeline 1 ''p1-renamed'' 1)), (2, wire_encode (pipeline 2 ''p2'' 1))]
        (serving []))
     = (Inl NotFound,
        node [(1, wire_encode (pipeline 1 ''p1-renamed'' 1)), (2, wire_encode (pipeline 2 ''p2'' 1))]
          (serving []))"
  using scan_filters [of wire 1 "named ''p1''"
      "node [(1, wire_encode (pipeline 1 ''p1-renamed'' 1)), (2, wire_encode (pipeline 2 ''p2'' 1))]
         (serving [])"]
  by (simp add: node_def readable_Cons readable_Nil wire_def wire_roundtrip
        SelectList_matches_def GetByParam_matches_def named_def pipeline_fields sublist_p1
        not_sublist_p1)

text \<open>
  The claim as stated fails for \<open>GetByParam\<close>: a record whose name strictly contains the
  filter name is returned by \<open>SelectList\<close> and not found by \<open>GetByParam\<close>.
\<close>

theorem GetByParam_substring_counterexample:
  "Contains (Name (pipeline 1 ''p1-renamed'' 1)) ''p1''
   \<and> Name (pipeline 1 ''p1-renamed'' 1) \<noteq> ''p1''
   \<and> SelectList wire 1 (named ''p1'')
        (node [(1, wire_encode (pipeline 1 ''p1-renamed'' 1))] (serving []))
       = (Inr [pipeline 1 ''p1-renamed'' 1],
          node [(1, wire_encode (pipeline 1 ''p1-renamed'' 1))] (serving []))
   \<and> GetByParam wire (named ''p1'')
        (node [(1, wire_encode (pipeline 1 ''p1-renamed'' 1))] (serving []))
       = (Inl NotFound, node [(1, wire_encode (pipeline 1 ''p1-renamed'' 1))] (serving []))"
  by (simp add: SelectList_def GetByParam_def DB_View_def node_def wire_def wire_roundtrip
        named_def pipeline_fields Contains_def sublist_p1)

text \<open>
  Claim C8, as amended. A record that does not deserialize is passed over by \<open>SelectList\<close> and
  by \<open>GetByParam\<close>, and nothing is logged for it: each scan returns what it returns on the
  bucket without that record (for \<open>SelectList\<close> every record that deserializes and passes
  the filters), never an error, and leaves the node's state, its log included, as it was.
\<close>

theorem scan_skips_malformed:
  assumes "Unmarshal c v = Inl err"
  shows "SelectList c PipelineInfoStatusDisable params (w\<lparr>bucket := b1 @ (k, v) # b2\<rparr>)
           = (Inr (filter (SelectList_matches PipelineInfoStatusDisable params)
                     (readable c (b1 @ b2))),
              w\<lparr>bucket := b1 @ (k, v) # b2\<rparr>)
       \<and> fst (SelectList c PipelineInfoStatusDisable params (w\<lparr>bucket := b1 @ (k, v) # b2\<rparr>))
           = fst (SelectList c PipelineInfoStatusDisable params (w\<lparr>bucket := b1 @ b2\<rparr>))
       \<and> GetByParam c params (w\<lparr>bucket := b1 @ (k, v) # b2\<rparr>)
           = (fst (GetByParam c params (w\<lparr>bucket := b1 @ b2\<rparr>)),
              w\<lparr>bucket := b1 @ (k, v) # b2\<rparr>)"
  using assms
  by (simp add: SelectList_eq GetByParam_eq readable_append readable_Cons)

lemma malformed: "wire_decode [255] = Inl SerializationError"
  by (simp add: wire_decode_def)

theorem scan_skips_malformed_witness:
  "Unmarshal wire [255] = Inl SerializationError
   \<and> SelectList wire 1 (named [])
        (node [(1, [255]), (2, wire_encode (pipeline 2 ''p2'' 1))] (serving []))
       = (Inr [pipeline 2 ''p2'' 1],
          node [(1, [255]), (2, wire_encode (pipeline 2 ''p2'' 1))] (serving []))
   \<and> GetByParam wire (named [])
        (node [(1, [255]), (2, wire_encode (pipeline 2 ''p2'' 1))] (serving []))
       = (Inr (pipeline 2 ''p2'' 1),
          node [(1, [255]), (2, wire_encode (pipeline 2 ''p2'' 1))] (serving []))"
proof -
  have bad: "Unmarshal wire [255] = Inl SerializationError"
    by (simp add: wire_def malformed)
  show ?thesis
    using scan_skips_malformed [OF bad, where PipelineInfoStatusDisable = 1
        and params = "named []" and w = "node [] (serving [])" and ?b1.0 = "[]" and k = 1
        and ?b2.0 = "[(2, wire_encode (pipeline 2 ''p2'' 1))]"] bad
    by (simp add: node_def GetByParam_eq readable_Cons readable_Nil wire_def wire_roundtrip
          SelectList_matches_def GetByParam_matches_def named_def)
qed

text \<open>
  The claim as stated fails on the log: after a scan over a malformed record the log is
  still empty.
\<close>

theorem scan_logs_nothing_counterexample:
  "Unmarshal wire [255] = Inl SerializationError
   \<and> SelectList wire 1 (named [])
        \<lparr>bucket = [(1, [255]), (2, wire_encode (pipeline 2 ''p2'' 1))], remote = serving [],
         logs = [], sent = [], commit_error = None\<rparr>
       = (Inr [pipeline 2 ''p2'' 1],
          \<lparr>bucket = [(1, [255]), (2, wire_encode (pipeline 2 ''p2'' 1))], remote = serving [],
           logs = [], sent = [], commit_error = None\<rparr>)
   \<and> GetByParam wire (named [])
        \<lparr>bucket = [(1, [255]), (2, wire_encode (pipeline 2 ''p2'' 1))], remote = serving [],
         logs = [], sent = [], commit_error = None\<rparr>
       = (Inr (pipeline 2 ''p2'' 1),
          \<lparr>bucket = [(1, [255]), (2, wire_encode (pipeline 2 ''p2'' 1))], remote = serving [],
           logs = [], sent = [], commit_error = None\<rparr>)"
  by (simp add: SelectList_def GetByParam_def DB_View_def wire_def malformed wire_roundtrip
        named_def pipeline_fields)


section \<open>refreshAll\<close>













lemma Get_cong: "bucket w1 = bucket w2 \<Longrightarrow> Get c eid w1 = Get c eid w2"
  by (simp add: Get_bucket)















section \<open>RefreshMetadata and OnSyncEvent\<close>









end
